theory Spec2Isabelle
  imports Main
begin

section \<open>Backend tags and exceptions\<close>

text \<open>
  \<^verbatim>\<open>class DataType(Enum)\<close> of \<^verbatim>\<open>xpag/tools/utils.py\<close>: the four backend tags.
\<close>

datatype DataType = TORCH_CPU | TORCH_CUDA | NUMPY | JAX

text \<open>
  Exceptions as values. \<open>TypeError\<close> is the only exception that \<^verbatim>\<open>utils.py\<close> raises itself
  (twice, in \<^verbatim>\<open>get_datatype\<close>); the string is its message. The others are raised by
  the interpreter or by the libraries the module calls:
  \<^item> \<open>NotOnHost\<close>: torch refuses \<^verbatim>\<open>numpy()\<close> on a tensor that is not in host memory;
  \<^item> \<open>RequiresGrad\<close>: torch refuses \<^verbatim>\<open>numpy()\<close> on a tensor that tracks gradients;
  \<^item> \<open>CudaUnavailable\<close>: torch cannot place data on device \<^verbatim>\<open>"cuda"\<close>;
  \<^item> \<open>AttributeError\<close>, \<open>KeyError\<close>, \<open>IndexError\<close>, \<open>NotSubscriptable\<close>: attribute
    access, dictionary lookup, tuple indexing and subscripting that fail;
  \<^item> \<open>NotImplementedError\<close>, \<open>RuntimeError\<close>, \<open>ValueError\<close>: what else a library may
    raise, with its message.
\<close>

datatype error =
    TypeError string
  | NotOnHost
  | RequiresGrad
  | CudaUnavailable
  | AttributeError string
  | KeyError string
  | IndexError
  | NotSubscriptable
  | NotImplementedError string
  | RuntimeError string
  | ValueError string

definition and_then :: "error + 'b \<Rightarrow> ('b \<Rightarrow> error + 'c) \<Rightarrow> error + 'c" where
  "and_then r f = (case r of Inl e \<Rightarrow> Inl e | Inr v \<Rightarrow> f v)"

section \<open>Objects, buffers and the world\<close>

text \<open>
  A Python value is a reference to an object. Objects live in a store and are addressed
  by their position in it, so that "the same object" is "the same address". A tensor or
  an array does not hold its numbers itself: it points to a buffer, and two objects may
  point to the same buffer (torch's \<^verbatim>\<open>detach()\<close> and \<^verbatim>\<open>numpy()\<close> share the storage of
  the tensor they are called on). The contents of a buffer (element type and numbers as
  they lie in memory) are opaque to \<^verbatim>\<open>utils.py\<close>, hence the type parameter \<open>'a\<close>.

  \<^item> \<open>Device t i\<close>: a \<^verbatim>\<open>torch.device\<close> of type \<open>t\<close> (\<^verbatim>\<open>"cpu"\<close>, \<^verbatim>\<open>"cuda"\<close>,
    \<^verbatim>\<open>"meta"\<close>, ...) and index \<open>i\<close> among the devices of that type.
  \<^item> \<open>Tensor dev grad b\<close>: a \<^verbatim>\<open>torch.Tensor\<close> with \<^verbatim>\<open>device == dev\<close>,
    \<^verbatim>\<open>requires_grad == grad\<close> and storage \<open>b\<close>.
  \<^item> \<open>DeviceArray b\<close>: a jaxlib \<^verbatim>\<open>DeviceArray\<close>.
  \<^item> \<open>NdArray b\<close>: a \<^verbatim>\<open>numpy.ndarray\<close>.
  \<^item> \<open>Other ty c\<close>: any other numeric value the annotations allow (\<^verbatim>\<open>list\<close>,
    \<^verbatim>\<open>float\<close>), of class \<open>ty\<close>, holding the numbers \<open>c\<close> itself.
\<close>

type_synonym addr = nat

datatype device = Device string nat

text \<open>\<^verbatim>\<open>device.type\<close>.\<close>

fun device_type :: "device \<Rightarrow> string" where
  "device_type (Device t i) = t"

datatype 'a pyobj =
    Tensor device bool addr
  | DeviceArray addr
  | NdArray addr
  | Other string 'a

text \<open>
  The world a call runs in: the objects, the buffers, and whether torch can use a CUDA
  device (the module never asks; it finds out when torch raises).
\<close>

record 'a world =
  objs :: "'a pyobj list"
  bufs :: "'a list"
  cuda_available :: bool

definition new_obj :: "'a world \<Rightarrow> 'a pyobj \<Rightarrow> 'a world \<times> addr" where
  "new_obj w ob = (w\<lparr>objs := objs w @ [ob]\<rparr>, length (objs w))"

definition new_buf :: "'a world \<Rightarrow> 'a \<Rightarrow> 'a world \<times> addr" where
  "new_buf w c = (w\<lparr>bufs := bufs w @ [c]\<rparr>, length (bufs w))"

text \<open>The numbers of an object: the contents of its buffer, or its own for a list or float.\<close>

definition data_of :: "'a world \<Rightarrow> 'a pyobj \<Rightarrow> 'a" where
  "data_of w ob =
     (case ob of
        Tensor dev grad b \<Rightarrow> bufs w ! b
      | DeviceArray b \<Rightarrow> bufs w ! b
      | NdArray b \<Rightarrow> bufs w ! b
      | Other ty c \<Rightarrow> c)"

text \<open>The buffer an object points to, if it has one.\<close>

definition buffer_of :: "'a pyobj \<Rightarrow> addr option" where
  "buffer_of ob =
     (case ob of
        Tensor dev grad b \<Rightarrow> Some b
      | DeviceArray b \<Rightarrow> Some b
      | NdArray b \<Rightarrow> Some b
      | Other ty c \<Rightarrow> None)"

definition valid :: "'a world \<Rightarrow> addr \<Rightarrow> bool" where
  "valid w x = (x < length (objs w))"

text \<open>
  A later world extends an earlier one when every object and every buffer of the earlier
  one is still there, at the same address and with the same contents, and the machine is
  the same. Whatever was allocated in between comes after them.
\<close>

definition extends :: "'a world \<Rightarrow> 'a world \<Rightarrow> bool" where
  "extends w w' =
     (take (length (objs w)) (objs w') = objs w \<and>
      take (length (bufs w)) (bufs w') = bufs w \<and>
      cuda_available w' = cuda_available w)"

text \<open>
  What a call returned, relative to the world \<open>w\<close> it started in: a new object on a new
  buffer, or a new object on the buffer of the operand \<open>x\<close>.
\<close>

definition fresh_result :: "'a world \<Rightarrow> 'a world \<Rightarrow> addr \<Rightarrow> bool" where
  "fresh_result w w' r =
     (\<not> valid w r \<and> valid w' r \<and>
      (case buffer_of (objs w' ! r) of
         None \<Rightarrow> False
       | Some b \<Rightarrow> \<not> b < length (bufs w) \<and> b < length (bufs w')))"


section \<open>The libraries\<close>

text \<open>
  \<^verbatim>\<open>utils.py\<close> is a layer over torch, numpy and jax. Each call it makes into them is a
  definition here, which says what the library documents for that call as far as types,
  devices, gradient tracking, object identity and buffers go: which object comes back, on
  which buffer, and when the call raises. What the libraries do beyond that is not fixed
  here but taken as a parameter \<open>L\<close>, so that every theorem holds whatever they do:
  \<^item> \<open>current_cuda\<close>: the index of torch's current CUDA device, which is what the device
    string \<^verbatim>\<open>"cuda"\<close> names;
  \<^item> \<open>refuses f ob c\<close>: the exception, if any, that the library raises when \<open>f\<close> is
    called on the object \<open>ob\<close> holding the numbers \<open>c\<close>, for a reason of its own: an
    element type that the target library lacks (\<^verbatim>\<open>numpy()\<close> of a bfloat16 tensor,
    \<^verbatim>\<open>torch.tensor\<close> of a uint64 array), a device without data (\<^verbatim>\<open>cpu()\<close> of a meta
    tensor), a layout, a shortage of memory;
  \<^item> \<open>torch_default\<close>: the numbers of a Python list or scalar as torch stores them (in
    its default element type);
  \<^item> \<open>jax_canonical\<close>: numbers as jax stores them (64-bit elements narrowed to 32 bits
    unless jax is configured otherwise);
  \<^item> \<open>performs\<close>: what a function or method of the dispatching operations does with its
    operands, see below.
\<close>

datatype libfun =
    To string
  | Detach
  | Cpu
  | Numpy
  | NpArray
  | JnpArray
  | TorchTensor string

datatype backend = Torch | Jnp | Np

datatype arg = Ref addr | Shape "int list"

datatype libcall =
    Call backend string "arg list"
  | Method addr string "arg list"

text \<open>
  The result of a library function: the operand itself, a new object that is a view on
  the buffer of the operand, or a new object on a new buffer. The kind of a new object is
  its header.
\<close>

datatype sharing = Itself | View | Copy

datatype header = TensorOn device bool | DeviceArrayOn | NdArrayOn

fun build :: "header \<Rightarrow> addr \<Rightarrow> 'a pyobj" where
  "build (TensorOn dev grad) b = Tensor dev grad b"
| "build DeviceArrayOn b = DeviceArray b"
| "build NdArrayOn b = NdArray b"

record 'a libs =
  current_cuda :: nat
  refuses :: "libfun \<Rightarrow> 'a pyobj \<Rightarrow> 'a \<Rightarrow> error option"
  torch_default :: "'a \<Rightarrow> 'a"
  jax_canonical :: "'a \<Rightarrow> 'a"
  performs :: "libcall \<Rightarrow> 'a pyobj list \<Rightarrow> 'a list \<Rightarrow> error + sharing \<times> header \<times> 'a"

text \<open>
  A reference is valid when it points into the store. A world is well formed when every
  object's buffer exists, a tensor on a CUDA device exists only where CUDA is available,
  and a DeviceArray holds its numbers the way jax stores them.
\<close>

definition wf_obj :: "'a libs \<Rightarrow> 'a world \<Rightarrow> 'a pyobj \<Rightarrow> bool" where
  "wf_obj L w ob =
     (case ob of
        Tensor dev grad b \<Rightarrow>
          b < length (bufs w) \<and> (device_type dev = ''cuda'' \<longrightarrow> cuda_available w)
      | DeviceArray b \<Rightarrow> b < length (bufs w) \<and> jax_canonical L (bufs w ! b) = bufs w ! b
      | NdArray b \<Rightarrow> b < length (bufs w)
      | Other ty c \<Rightarrow> True)"

definition wf :: "'a libs \<Rightarrow> 'a world \<Rightarrow> bool" where
  "wf L w = list_all (wf_obj L w) (objs w)"


subsection \<open>Type tests\<close>

text \<open>\<^verbatim>\<open>torch.is_tensor(x)\<close>, \<^verbatim>\<open>isinstance(x, DeviceArray)\<close>, \<^verbatim>\<open>isinstance(x, np.ndarray)\<close>.\<close>

definition is_tensor :: "'a pyobj \<Rightarrow> bool" where
  "is_tensor ob = (case ob of Tensor dev grad b \<Rightarrow> True | _ \<Rightarrow> False)"

definition is_DeviceArray :: "'a pyobj \<Rightarrow> bool" where
  "is_DeviceArray ob = (case ob of DeviceArray b \<Rightarrow> True | _ \<Rightarrow> False)"

definition is_ndarray :: "'a pyobj \<Rightarrow> bool" where
  "is_ndarray ob = (case ob of NdArray b \<Rightarrow> True | _ \<Rightarrow> False)"

text \<open>\<^verbatim>\<open>f"{type(x)}"\<close>: \<^verbatim>\<open><class 'list'>\<close> for a list.\<close>

definition type_name :: "'a pyobj \<Rightarrow> string" where
  "type_name ob =
     (case ob of
        Tensor dev grad b \<Rightarrow> ''torch.Tensor''
      | DeviceArray b \<Rightarrow> ''jaxlib.xla_extension.DeviceArray''
      | NdArray b \<Rightarrow> ''numpy.ndarray''
      | Other ty c \<Rightarrow> ty)"

definition type_repr :: "'a pyobj \<Rightarrow> string" where
  "type_repr ob = ''<class '' @ [CHR 0x27] @ type_name ob @ [CHR 0x27] @ ''>''"

subsection \<open>The calls of the conversions\<close>

text \<open>
  The device that a device string names: \<^verbatim>\<open>"cuda"\<close> is the current CUDA device. A tensor
  is on the device named by \<^verbatim>\<open>"cuda"\<close> when it is on that very device, and on the device
  named by \<^verbatim>\<open>"cpu"\<close> when it is in host memory.
\<close>

definition named :: "'a libs \<Rightarrow> string \<Rightarrow> device" where
  "named L d = (if d = ''cuda'' then Device ''cuda'' (current_cuda L) else Device d 0)"

definition is_on :: "'a libs \<Rightarrow> device \<Rightarrow> string \<Rightarrow> bool" where
  "is_on L dev d = (if d = ''cuda'' then dev = named L d else device_type dev = d)"

text \<open>
  \<^verbatim>\<open>x.to(device=d)\<close>: the tensor itself when it is already on the device that \<open>d\<close>
  names, a copy on that device otherwise; placing on \<^verbatim>\<open>"cuda"\<close> fails where CUDA is
  not available.
\<close>

definition tensor_to :: "'a libs \<Rightarrow> 'a world \<Rightarrow> addr \<Rightarrow> string \<Rightarrow> error + 'a world \<times> addr" where
  "tensor_to L w x d =
     (case objs w ! x of
        Tensor dev grad b \<Rightarrow>
          if is_on L dev d then Inr (w, x)
          else if d = ''cuda'' \<and> \<not> cuda_available w then Inl CudaUnavailable
          else (case refuses L (To d) (objs w ! x) (bufs w ! b) of
                  Some e \<Rightarrow> Inl e
                | None \<Rightarrow>
                    (case new_buf w (bufs w ! b) of
                       (w1, b1) \<Rightarrow> Inr (new_obj w1 (Tensor (named L d) grad b1))))
      | _ \<Rightarrow> Inl (AttributeError ''to''))"

text \<open>\<^verbatim>\<open>x.detach()\<close>: a new tensor on the same storage that does not track gradients.\<close>

definition tensor_detach :: "'a libs \<Rightarrow> 'a world \<Rightarrow> addr \<Rightarrow> error + 'a world \<times> addr" where
  "tensor_detach L w x =
     (case objs w ! x of
        Tensor dev grad b \<Rightarrow>
          (case refuses L Detach (objs w ! x) (bufs w ! b) of
             Some e \<Rightarrow> Inl e
           | None \<Rightarrow> Inr (new_obj w (Tensor dev False b)))
      | _ \<Rightarrow> Inl (AttributeError ''detach''))"

text \<open>\<^verbatim>\<open>x.cpu()\<close>: the tensor itself when it is in host memory, a copy in host memory otherwise.\<close>

definition tensor_cpu :: "'a libs \<Rightarrow> 'a world \<Rightarrow> addr \<Rightarrow> error + 'a world \<times> addr" where
  "tensor_cpu L w x =
     (case objs w ! x of
        Tensor dev grad b \<Rightarrow>
          if device_type dev = ''cpu'' then Inr (w, x)
          else (case refuses L Cpu (objs w ! x) (bufs w ! b) of
                  Some e \<Rightarrow> Inl e
                | None \<Rightarrow>
                    (case new_buf w (bufs w ! b) of
                       (w1, b1) \<Rightarrow> Inr (new_obj w1 (Tensor (Device ''cpu'' 0) grad b1))))
      | _ \<Rightarrow> Inl (AttributeError ''cpu''))"

text \<open>
  \<^verbatim>\<open>x.numpy()\<close>: an ndarray on the storage of the tensor; torch raises for a tensor that
  is not in host memory, for one that tracks gradients, and for one that numpy cannot
  represent.
\<close>

definition tensor_numpy :: "'a libs \<Rightarrow> 'a world \<Rightarrow> addr \<Rightarrow> error + 'a world \<times> addr" where
  "tensor_numpy L w x =
     (case objs w ! x of
        Tensor dev grad b \<Rightarrow>
          if device_type dev \<noteq> ''cpu'' then Inl NotOnHost
          else if grad then Inl RequiresGrad
          else (case refuses L Numpy (objs w ! x) (bufs w ! b) of
                  Some e \<Rightarrow> Inl e
                | None \<Rightarrow> Inr (new_obj w (NdArray b)))
      | _ \<Rightarrow> Inl (AttributeError ''numpy''))"

text \<open>
  What numpy and jax read from an operand that is not theirs: the operand's own numbers,
  which for a tensor are obtained through \<^verbatim>\<open>numpy()\<close> and fail as it does for a tensor
  that is not in host memory or that tracks gradients. What else can go wrong with an
  operand (an element type that the reading library lacks) is the library's to say:
  \<open>refuses\<close> for the conversions, \<open>performs\<close> for the dispatching operations.
\<close>

definition array_protocol :: "'a world \<Rightarrow> addr \<Rightarrow> error + 'a" where
  "array_protocol w x =
     (case objs w ! x of
        Tensor dev grad b \<Rightarrow>
          if device_type dev \<noteq> ''cpu'' then Inl NotOnHost
          else if grad then Inl RequiresGrad
          else Inr (bufs w ! b)
      | ob \<Rightarrow> Inr (data_of w ob))"

text \<open>An operand that numpy can read: the array protocol returns its numbers.\<close>

definition readable :: "'a world \<Rightarrow> addr \<Rightarrow> bool" where
  "readable w x = (case array_protocol w x of Inl e \<Rightarrow> False | Inr c \<Rightarrow> True)"

text \<open>\<^verbatim>\<open>np.array(x)\<close>: a new ndarray on a new buffer holding a copy of the numbers of \<open>x\<close>.\<close>

definition np_array :: "'a libs \<Rightarrow> 'a world \<Rightarrow> addr \<Rightarrow> error + 'a world \<times> addr" where
  "np_array L w x =
     and_then (array_protocol w x)
       (\<lambda>c. case refuses L NpArray (objs w ! x) c of
               Some e \<Rightarrow> Inl e
             | None \<Rightarrow> (case new_buf w c of (w1, b1) \<Rightarrow> Inr (new_obj w1 (NdArray b1))))"

text \<open>
  \<^verbatim>\<open>jnp.array(x)\<close>: a new DeviceArray on a new buffer holding the numbers of \<open>x\<close> the way
  jax stores them.
\<close>

definition jnp_array :: "'a libs \<Rightarrow> 'a world \<Rightarrow> addr \<Rightarrow> error + 'a world \<times> addr" where
  "jnp_array L w x =
     and_then (array_protocol w x)
       (\<lambda>c. case refuses L JnpArray (objs w ! x) c of
               Some e \<Rightarrow> Inl e
             | None \<Rightarrow>
                 (case new_buf w (jax_canonical L c) of
                    (w1, b1) \<Rightarrow> Inr (new_obj w1 (DeviceArray b1))))"

text \<open>
  \<^verbatim>\<open>torch.tensor(x, device=d)\<close>: a new tensor on the device that \<open>d\<close> names, not tracking
  gradients, on a new buffer holding a copy of the numbers of \<open>x\<close> (in torch's default
  element type when \<open>x\<close> is a list or a scalar, which has none); fails where \<open>d\<close> is
  \<^verbatim>\<open>"cuda"\<close> and CUDA is not available.
\<close>

definition torch_tensor :: "'a libs \<Rightarrow> 'a world \<Rightarrow> addr \<Rightarrow> string \<Rightarrow> error + 'a world \<times> addr" where
  "torch_tensor L w x d =
     (if d = ''cuda'' \<and> \<not> cuda_available w then Inl CudaUnavailable
      else (case refuses L (TorchTensor d) (objs w ! x) (data_of w (objs w ! x)) of
              Some e \<Rightarrow> Inl e
            | None \<Rightarrow>
                (case new_buf w
                        (case objs w ! x of
                           Other ty c \<Rightarrow> torch_default L c
                         | ob \<Rightarrow> data_of w ob) of
                   (w1, b1) \<Rightarrow> Inr (new_obj w1 (Tensor (named L d) False b1)))))"

section \<open>\<^verbatim>\<open>get_datatype\<close> and \<^verbatim>\<open>datatype_convert\<close>\<close>

definition get_datatype :: "'a pyobj \<Rightarrow> error + DataType" where
  "get_datatype x =
     (if is_tensor x then
        (case x of
           Tensor dev grad b \<Rightarrow>
             if device_type dev = ''cpu'' then Inr TORCH_CPU
             else if device_type dev = ''cuda'' then Inr TORCH_CUDA
             else Inl (TypeError
               ''PyTorch devices other than CPU or CUDA (e.g. XLA) are not handled.'')
         | _ \<Rightarrow> Inl (AttributeError ''device''))
      else if is_DeviceArray x then Inr JAX
      else if is_ndarray x then Inr NUMPY
      else Inl (TypeError (type_repr x @ '' not handled.'')))"


text \<open>
  The second argument is \<open>None\<close> for Python's \<^verbatim>\<open>None\<close> and \<open>Some t\<close> for the tag \<open>t\<close>.
  The result is the world after the call and the reference returned. The source ends its
  chain with \<^verbatim>\<open>elif datatype == DataType.JAX\<close>; a tag that is none of the other three is
  \<open>JAX\<close>, so this is the last \<open>else\<close> here.
\<close>

definition datatype_convert ::
  "'a libs \<Rightarrow> 'a world \<Rightarrow> addr \<Rightarrow> DataType option \<Rightarrow> error + 'a world \<times> addr" where
  "datatype_convert L w x datatype =
     (case datatype of
        None \<Rightarrow> Inr (w, x)
      | Some dt \<Rightarrow>
          if dt = TORCH_CPU \<or> dt = TORCH_CUDA then
            (if is_tensor (objs w ! x) then
               (if dt = TORCH_CPU then tensor_to L w x ''cpu''
                else tensor_to L w x ''cuda'')
             else if is_DeviceArray (objs w ! x) then
               (if dt = TORCH_CPU
                then and_then (np_array L w x) (\<lambda>(w1, a). torch_tensor L w1 a ''cpu'')
                else and_then (np_array L w x) (\<lambda>(w1, a). torch_tensor L w1 a ''cuda''))
             else
               (if dt = TORCH_CPU then torch_tensor L w x ''cpu''
                else torch_tensor L w x ''cuda''))
          else if dt = NUMPY then
            (if is_tensor (objs w ! x) then
               and_then (and_then (tensor_detach L w x) (\<lambda>(w1, t). tensor_cpu L w1 t))
                 (\<lambda>(w2, c). tensor_numpy L w2 c)
             else if is_ndarray (objs w ! x) then Inr (w, x)
             else np_array L w x)
          else
            (if is_tensor (objs w ! x) then
               and_then
                 (and_then (and_then (tensor_detach L w x) (\<lambda>(w1, t). tensor_cpu L w1 t))
                    (\<lambda>(w2, c). tensor_numpy L w2 c))
                 (\<lambda>(w3, a). jnp_array L w3 a)
             else if is_DeviceArray (objs w ! x) then Inr (w, x)
             else jnp_array L w x))"


text \<open>
  A tensor on a CUDA device other than the current one: its tag is \<open>TORCH_CUDA\<close>, and
  yet it is not on the device that \<^verbatim>\<open>"cuda"\<close> names.
\<close>

definition off_current :: "'a libs \<Rightarrow> 'a pyobj \<Rightarrow> bool" where
  "off_current L ob =
     (case ob of
        Tensor dev grad b \<Rightarrow> device_type dev = ''cuda'' \<and> dev \<noteq> Device ''cuda'' (current_cuda L)
      | _ \<Rightarrow> False)"

section \<open>The dispatching operations\<close>

text \<open>
  \<^verbatim>\<open>reshape\<close>, \<^verbatim>\<open>hstack\<close>, \<^verbatim>\<open>maximum\<close>, \<^verbatim>\<open>squeeze\<close> and \<^verbatim>\<open>where\<close> choose a library
  function and return what it returns. The definitions named after them record the
  choice: which library's function, or which object's method, is called on which
  arguments. \<open>run\<close> below is the call itself.
\<close>

text \<open>
  A numpy function reads each operand through the array protocol, in order, before it
  computes anything; the first operand that cannot be read raises.
\<close>

fun read_operands :: "'a world \<Rightarrow> addr list \<Rightarrow> error + unit" where
  "read_operands w [] = Inr ()"
| "read_operands w (x # xs) = and_then (array_protocol w x) (\<lambda>c. read_operands w xs)"

definition np_func :: "'a world \<Rightarrow> string \<Rightarrow> addr list \<Rightarrow> error + libcall" where
  "np_func w name xs =
     and_then (read_operands w xs) (\<lambda>u. Inr (Call Np name (map Ref xs)))"


definition hstack :: "'a world \<Rightarrow> addr \<Rightarrow> addr \<Rightarrow> error + libcall" where
  "hstack w x y =
     (if is_tensor (objs w ! x) \<and> is_tensor (objs w ! y)
      then Inr (Call Torch ''hstack'' [Ref x, Ref y])
      else if is_DeviceArray (objs w ! x) \<and> is_DeviceArray (objs w ! y)
      then Inr (Call Jnp ''hstack'' [Ref x, Ref y])
      else np_func w ''hstack'' [x, y])"

definition maximum :: "'a world \<Rightarrow> addr \<Rightarrow> addr \<Rightarrow> error + libcall" where
  "maximum w x y =
     (if is_tensor (objs w ! x) \<and> is_tensor (objs w ! y)
      then Inr (Call Torch ''maximum'' [Ref x, Ref y])
      else if is_DeviceArray (objs w ! x) \<and> is_DeviceArray (objs w ! y)
      then Inr (Call Jnp ''maximum'' [Ref x, Ref y])
      else np_func w ''maximum'' [x, y])"


definition where_op :: "'a world \<Rightarrow> addr \<Rightarrow> addr \<Rightarrow> addr \<Rightarrow> error + libcall" where
  "where_op w condition x y =
     (if is_tensor (objs w ! x) \<and> is_tensor (objs w ! y)
      then Inr (Call Torch ''where'' [Ref condition, Ref x, Ref y])
      else if is_DeviceArray (objs w ! x) \<and> is_DeviceArray (objs w ! y)
      then Inr (Call Jnp ''where'' [Ref condition, Ref x, Ref y])
      else np_func w ''where'' [condition, x, y])"

subsection \<open>Running the chosen call\<close>

text \<open>
  The operands of a call are the objects it refers to; the operand a result may be a view
  of is the receiver of a method and the one array of \<^verbatim>\<open>squeeze\<close>.
\<close>

fun refs :: "arg list \<Rightarrow> addr list" where
  "refs [] = []"
| "refs (Ref a # as) = a # refs as"
| "refs (Shape s # as) = refs as"

definition operands :: "libcall \<Rightarrow> addr list" where
  "operands c =
     (case c of
        Call lib name as \<Rightarrow> refs as
      | Method a name as \<Rightarrow> a # refs as)"

text \<open>
  \<^verbatim>\<open>hstack\<close>, \<^verbatim>\<open>maximum\<close> and \<^verbatim>\<open>where\<close> of all three libraries build their result in
  memory of its own. \<^verbatim>\<open>squeeze\<close> and \<^verbatim>\<open>reshape\<close> do not in general: the libraries
  document that they return a view of the operand where they can, numpy's \<^verbatim>\<open>squeeze\<close>
  even the operand itself when there is nothing to squeeze. Which it is depends on the
  shape and layout of the operand, so the library says (\<open>performs\<close>), together with the
  header of a new object, the numbers of a new buffer, and whether it raises instead
  (shapes that do not fit, operands it cannot combine).
\<close>

definition allocates :: "libcall \<Rightarrow> bool" where
  "allocates c =
     (case c of
        Call lib name as \<Rightarrow> name = ''hstack'' \<or> name = ''maximum'' \<or> name = ''where''
      | Method a name as \<Rightarrow> False)"

definition run :: "'a libs \<Rightarrow> 'a world \<Rightarrow> libcall \<Rightarrow> error + 'a world \<times> addr" where
  "run L w c =
     (case performs L c (map (\<lambda>a. objs w ! a) (operands c))
             (map (\<lambda>a. data_of w (objs w ! a)) (operands c)) of
        Inl e \<Rightarrow> Inl e
      | Inr (sh, h, nums) \<Rightarrow>
          (case (if allocates c \<or> sh = Copy then None
                 else (case operands c of
                         [] \<Rightarrow> None
                       | x # xs \<Rightarrow> map_option (\<lambda>b. (x, b)) (buffer_of (objs w ! x)))) of
             None \<Rightarrow> (case new_buf w nums of (w1, b1) \<Rightarrow> Inr (new_obj w1 (build h b1)))
           | Some (x, b) \<Rightarrow>
               if sh = View then Inr (new_obj w (build h b)) else Inr (w, x)))"







subsection \<open>Three libraries to run examples in\<close>

text \<open>
  \<open>plain\<close> refuses nothing, stores numbers as they are, has CUDA device 0 current and
  performs none of the dispatching operations. \<open>lists\<close> is \<open>plain\<close> for one-dimensional
  arrays of integers, with \<^verbatim>\<open>hstack\<close> as concatenation into a new array of the library
  called and \<^verbatim>\<open>squeeze\<close> as a view of the operand. \<open>picky\<close> is \<open>plain\<close> for buffers
  that name their element type, and has no numpy counterpart for \<^verbatim>\<open>bfloat16\<close>, as
  torch has none.
\<close>

definition plain :: "'a libs" where
  "plain =
     \<lparr>current_cuda = 0,
      refuses = (\<lambda>f ob c. None),
      torch_default = (\<lambda>c. c),
      jax_canonical = (\<lambda>c. c),
      performs = (\<lambda>c obs ds. Inl (NotImplementedError ''not performed''))\<rparr>"




section \<open>\<^verbatim>\<open>get_env_dimensions\<close>\<close>

text \<open>
  The environment object, as far as the function reads it. An attribute the object does
  not have is \<open>None\<close>. A space is either one with a shape tuple (a gym \<^verbatim>\<open>Box\<close>), or a
  dictionary of spaces (a gym \<^verbatim>\<open>Dict\<close>), which can be subscripted and whose \<^verbatim>\<open>shape\<close>
  is \<^verbatim>\<open>None\<close>.
\<close>

datatype space = Box "int list" | DictSpace "(string \<times> space) list"

record env =
  is_vector_env :: "bool option"
  single_action_space :: "space option"
  single_observation_space :: "space option"
  action_space :: "space option"
  observation_space :: "space option"

text \<open>\<^verbatim>\<open>env.name\<close>, \<^verbatim>\<open>space[key]\<close> and \<^verbatim>\<open>space.shape[-1]\<close>.\<close>

definition get_attr :: "string \<Rightarrow> 'b option \<Rightarrow> error + 'b" where
  "get_attr name v = (case v of None \<Rightarrow> Inl (AttributeError name) | Some s \<Rightarrow> Inr s)"

definition get_item :: "string \<Rightarrow> space \<Rightarrow> error + space" where
  "get_item key s =
     (case s of
        Box shp \<Rightarrow> Inl NotSubscriptable
      | DictSpace kvs \<Rightarrow>
          (case map_of kvs key of None \<Rightarrow> Inl (KeyError key) | Some t \<Rightarrow> Inr t))"

definition shape_last :: "space \<Rightarrow> error + int option" where
  "shape_last s =
     (case s of
        Box shp \<Rightarrow> (if shp = [] then Inl IndexError else Inr (Some (last shp)))
      | DictSpace kvs \<Rightarrow> Inl NotSubscriptable)"

text \<open>
  The caller's \<^verbatim>\<open>info\<close> dictionary: keys to values, where a value is an integer or
  Python's \<^verbatim>\<open>None\<close> (\<open>None\<close> here). The function assigns to it in place, so a statement
  takes the dictionary and returns it updated, together with the exception if one was
  raised: what was assigned before an exception stays assigned.
\<close>

type_synonym info = "string \<rightharpoonup> int option"

type_synonym stmt = "info \<Rightarrow> info \<times> (error + unit)"

definition set_item :: "string \<Rightarrow> error + int option \<Rightarrow> stmt" where
  "set_item key rhs info =
     (case rhs of Inl e \<Rightarrow> (info, Inl e) | Inr v \<Rightarrow> (info(key \<mapsto> v), Inr ()))"

definition seq :: "stmt \<Rightarrow> stmt \<Rightarrow> stmt" where
  "seq s1 s2 info =
     (case s1 info of (info1, Inl e) \<Rightarrow> (info1, Inl e) | (info1, Inr u) \<Rightarrow> s2 info1)"

definition get_env_dimensions ::
  "info \<Rightarrow> bool \<Rightarrow> env \<Rightarrow> info \<times> (error + (string \<rightharpoonup> int))" where
  "get_env_dimensions info is_goalenv env =
     (let gymvecenv = (case is_vector_env env of Some v \<Rightarrow> v | None \<Rightarrow> False);
          dims = Map.empty;
          body =
            (if gymvecenv then
               seq (set_item ''action_dim''
                      (and_then (get_attr ''single_action_space'' (single_action_space env))
                         shape_last))
              (seq (set_item ''observation_dim''
                      (if is_goalenv
                       then and_then
                              (and_then
                                 (get_attr ''single_observation_space''
                                    (single_observation_space env))
                                 (get_item ''observation''))
                              shape_last
                       else and_then
                              (get_attr ''single_observation_space''
                                 (single_observation_space env))
                              shape_last))
              (seq (set_item ''achieved_goal_dim''
                      (if is_goalenv
                       then and_then
                              (and_then
                                 (get_attr ''single_observation_space''
                                    (single_observation_space env))
                                 (get_item ''achieved_goal''))
                              shape_last
                       else Inr None))
                   (set_item ''desired_goal_dim''
                      (if is_goalenv
                       then and_then
                              (and_then
                                 (get_attr ''single_observation_space''
                                    (single_observation_space env))
                                 (get_item ''desired_goal''))
                              shape_last
                       else Inr None))))
             else
               seq (set_item ''action_dim''
                      (and_then (get_attr ''action_space'' (action_space env)) shape_last))
              (seq (set_item ''observation_dim''
                      (if is_goalenv
                       then and_then
                              (and_then
                                 (get_attr ''observation_space'' (observation_space env))
                                 (get_item ''observation''))
                              shape_last
                       else and_then
                              (get_attr ''observation_space'' (observation_space env))
                              shape_last))
              (seq (set_item ''achieved_goal_dim''
                      (if is_goalenv
                       then and_then
                              (and_then
                                 (get_attr ''observation_space'' (observation_space env))
                                 (get_item ''achieved_goal''))
                              shape_last
                       else Inr None))
                   (set_item ''desired_goal_dim''
                      (if is_goalenv
                       then and_then
                              (and_then
                                 (get_attr ''observation_space'' (observation_space env))
                                 (get_item ''desired_goal''))
                              shape_last
                       else Inr None)))))
      in case body info of
           (info1, Inl e) \<Rightarrow> (info1, Inl e)
         | (info1, Inr u) \<Rightarrow> (info1, Inr dims))"

section \<open>Classification\<close>

text \<open>
  Claim C1. \<^verbatim>\<open>get_datatype\<close> tests for a torch tensor first, then for a DeviceArray,
  then for an ndarray. A tensor is classified by the kind of its device: \<^verbatim>\<open>"cpu"\<close> gives
  \<open>TORCH_CPU\<close>, \<^verbatim>\<open>"cuda"\<close> gives \<open>TORCH_CUDA\<close>, and any other kind raises the error
  for unsupported devices, which the code raises as a \<open>TypeError\<close> with the message
  about PyTorch devices. A DeviceArray gives \<open>JAX\<close>, an ndarray gives \<open>NUMPY\<close>, and any
  other value, such as a Python list, raises the error for unrecognized types, which the
  code raises as a \<open>TypeError\<close> with the message \<^verbatim>\<open><class 'list'> not handled.\<close>
\<close>

theorem get_datatype_by_representation:
  "get_datatype (Tensor (Device dev i) grad b) =
     (if dev = ''cpu'' then Inr TORCH_CPU
      else if dev = ''cuda'' then Inr TORCH_CUDA
      else Inl (TypeError
        ''PyTorch devices other than CPU or CUDA (e.g. XLA) are not handled.''))
   \<and> get_datatype (DeviceArray b) = Inr JAX
   \<and> get_datatype (NdArray b) = Inr NUMPY
   \<and> get_datatype (Other ty c) =
       Inl (TypeError (''<class '' @ [CHR 0x27] @ ty @ [CHR 0x27] @ ''> not handled.''))
   \<and> get_datatype (Other ''list'' c) = Inl (TypeError ''<class 'list'> not handled.'')"
  by (simp add: get_datatype_def is_tensor_def is_DeviceArray_def is_ndarray_def
      type_repr_def type_name_def)

section \<open>Conversion\<close>

lemmas convs =
  datatype_convert_def and_then_def is_tensor_def is_DeviceArray_def is_ndarray_def
  tensor_detach_def tensor_cpu_def tensor_to_def tensor_numpy_def np_array_def jnp_array_def
  torch_tensor_def array_protocol_def new_obj_def new_buf_def valid_def nth_append
  data_of_def named_def is_on_def

lemma wf_obj_at: "wf L w \<Longrightarrow> x < length (objs w) \<Longrightarrow> wf_obj L w (objs w ! x)"
  by (simp add: wf_def list_all_length)


text \<open>
  Claim C3. For every value, \<^verbatim>\<open>datatype_convert(v, None)\<close> returns \<open>v\<close> itself: the
  same reference, in an unchanged world, so nothing was copied.
\<close>

theorem datatype_convert_None_identity:
  "datatype_convert L w x None = Inr (w, x)"
  by (simp add: datatype_convert_def)

subsection \<open>The default target\<close>



subsection \<open>Conversion to a host array\<close>








subsection \<open>Conversion to the tag a value already has\<close>

text \<open>
  Claim C6, as stated, fails for a tensor on a CUDA device that is not the current one:
  its tag is \<open>TORCH_CUDA\<close>, and \<^verbatim>\<open>x.to(device="cuda")\<close> copies it to the current device,
  so the conversion to its own tag returns a new tensor (object 1, not the input 0) on a
  new buffer.
\<close>

theorem tensor_on_other_gpu_is_copied:
  "get_datatype
     (objs \<lparr>objs = [Tensor (Device ''cuda'' 1) False 0], bufs = [[1, 2, 3 :: int]],
            cuda_available = True\<rparr> ! 0) = Inr TORCH_CUDA
   \<and> current_cuda (plain :: int list libs) = 0
   \<and> datatype_convert plain
        \<lparr>objs = [Tensor (Device ''cuda'' 1) False 0], bufs = [[1, 2, 3 :: int]],
         cuda_available = True\<rparr> 0 (Some TORCH_CUDA)
     = Inr (\<lparr>objs = [Tensor (Device ''cuda'' 1) False 0, Tensor (Device ''cuda'' 0) False 1],
              bufs = [[1, 2, 3], [1, 2, 3]], cuda_available = True\<rparr>, 1)"
  by (simp add: convs get_datatype_def plain_def)

text \<open>
  Claim C6, amended. A value whose tag is \<open>A\<close> is returned as it is by the conversion
  to \<open>A\<close>, the same reference in an unchanged world, unless it is a tensor on a CUDA
  device other than torch's current one: that tensor, whose tag is \<open>TORCH_CUDA\<close>, is
  copied by the conversion to \<open>TORCH_CUDA\<close>, which returns, when it returns, a new
  tensor on the current CUDA device, on a new buffer with the same numbers.
\<close>

theorem datatype_convert_same_tag:
  assumes "valid w x" and "wf L w" and "get_datatype (objs w ! x) = Inr A"
  shows "if off_current L (objs w ! x)
         then A = TORCH_CUDA \<and>
              (\<forall>w' r. datatype_convert L w x (Some A) = Inr (w', r) \<longrightarrow>
                 r \<noteq> x \<and> fresh_result w w' r \<and> extends w w' \<and>
                 (\<exists>grad b. objs w' ! r = Tensor (Device ''cuda'' (current_cuda L)) grad b \<and>
                    bufs w' ! b = data_of w (objs w ! x)))
         else datatype_convert L w x (Some A) = Inr (w, x)"
proof (cases "objs w ! x")
  case (Tensor dev g b)
  with assms wf_obj_at [of L w x] show ?thesis
    by (cases "device_type dev = ''cpu''"; cases "device_type dev = ''cuda''")
       (auto simp: convs get_datatype_def off_current_def wf_obj_def fresh_result_def
          buffer_of_def extends_def split: option.splits)
next
  case (DeviceArray b)
  with assms show ?thesis
    by (auto simp: convs get_datatype_def off_current_def)
next
  case (NdArray b)
  with assms show ?thesis
    by (auto simp: convs get_datatype_def off_current_def)
next
  case (Other ty c)
  with assms show ?thesis
    by (simp add: get_datatype_def is_tensor_def is_DeviceArray_def is_ndarray_def)
qed

theorem datatype_convert_same_tag_witness:
  "valid \<lparr>objs = [NdArray 0, Tensor (Device ''cuda'' 0) True 0], bufs = [[1, 2 :: int]],
          cuda_available = True\<rparr> 1
   \<and> wf plain
        \<lparr>objs = [NdArray 0, Tensor (Device ''cuda'' 0) True 0], bufs = [[1, 2 :: int]],
         cuda_available = True\<rparr>
   \<and> get_datatype
       (objs \<lparr>objs = [NdArray 0, Tensor (Device ''cuda'' 0) True 0], bufs = [[1, 2 :: int]],
              cuda_available = True\<rparr> ! 1) = Inr TORCH_CUDA
   \<and> \<not> off_current (plain :: int list libs) (Tensor (Device ''cuda'' 0) True 0)
   \<and> datatype_convert plain
        \<lparr>objs = [NdArray 0, Tensor (Device ''cuda'' 0) True 0], bufs = [[1, 2 :: int]],
         cuda_available = True\<rparr> 1 (Some TORCH_CUDA)
     = Inr (\<lparr>objs = [NdArray 0, Tensor (Device ''cuda'' 0) True 0], bufs = [[1, 2]],
              cuda_available = True\<rparr>, 1)"
proof -
  let ?w = "\<lparr>objs = [NdArray 0, Tensor (Device ''cuda'' 0) True 0], bufs = [[1, 2 :: int]],
             cuda_available = True\<rparr>"
  have v: "valid ?w 1"
    by (simp add: valid_def)
  have f: "wf plain ?w"
    by (simp add: wf_def wf_obj_def)
  have tag: "get_datatype (objs ?w ! 1) = Inr TORCH_CUDA"
    by (simp add: get_datatype_def is_tensor_def)
  have on: "\<not> off_current (plain :: int list libs) (objs ?w ! 1)"
    by (simp add: off_current_def plain_def)
  from datatype_convert_same_tag [OF v f tag] on v f tag show ?thesis
    by simp
qed

subsection \<open>Classifying the result of a conversion\<close>




subsection \<open>The round trip through a host array\<close>




section \<open>Dispatch on two operands\<close>

lemma array_protocol_error:
  "array_protocol w x = Inl e \<Longrightarrow> e = NotOnHost \<or> e = RequiresGrad"
  by (cases "objs w ! x") (auto simp: array_protocol_def split: if_splits)

lemma readable_iff:
  "readable w x \<longleftrightarrow>
     (case objs w ! x of
          Tensor dev grad b \<Rightarrow> device_type dev = ''cpu'' \<and> \<not> grad
        | _ \<Rightarrow> True)"
  by (cases "objs w ! x") (simp_all add: readable_def array_protocol_def)

lemma read_operands_returns: "(read_operands w xs = Inr u) = list_all (readable w) xs"
  by (induction xs) (auto simp: readable_def and_then_def split: sum.splits)

lemma read_operands_error:
  "read_operands w xs = Inl e \<Longrightarrow> e = NotOnHost \<or> e = RequiresGrad"
  by (induction xs) (auto simp: and_then_def dest: array_protocol_error split: sum.splits)

lemma np_func_returns:
  "list_all (readable w) xs \<Longrightarrow> np_func w name xs = Inr (Call Np name (map Ref xs))"
  using read_operands_returns [of w xs]
  by (cases "read_operands w xs") (simp_all add: np_func_def and_then_def)

lemma np_func_raises:
  "\<not> list_all (readable w) xs \<Longrightarrow>
     np_func w name xs = Inl NotOnHost \<or> np_func w name xs = Inl RequiresGrad"
  using read_operands_returns [of w xs] read_operands_error [of w xs]
  by (cases "read_operands w xs") (auto simp: np_func_def and_then_def)


lemma tensor_is_no_DeviceArray: "\<not> (is_tensor ob \<and> is_DeviceArray ob)"
  by (cases ob) (simp_all add: is_tensor_def is_DeviceArray_def)

text \<open>
  The shape that \<^verbatim>\<open>hstack\<close>, \<^verbatim>\<open>maximum\<close> and \<^verbatim>\<open>where\<close> share: torch when \<open>A\<close>, jax
  when \<open>B\<close>, numpy otherwise.
\<close>

lemma dual_dispatch:
  assumes r: "r = (if A then Inr (Call Torch name (map Ref xs))
                   else if B then Inr (Call Jnp name (map Ref xs))
                   else np_func w name xs)"
    and excl: "\<not> (A \<and> B)"
  shows "((\<exists>a. r = Inr (Call Torch name a)) \<longleftrightarrow> A)
       \<and> ((\<exists>a. r = Inr (Call Jnp name a)) \<longleftrightarrow> B)
       \<and> (if A \<or> B then True
          else if list_all (readable w) xs then r = Inr (Call Np name (map Ref xs))
          else r = Inl NotOnHost \<or> r = Inl RequiresGrad)"
proof (cases "A \<or> B")
  case True
  with r excl show ?thesis by auto
next
  case False
  with r have np: "r = np_func w name xs" by simp
  show ?thesis
  proof (cases "list_all (readable w) xs")
    case True
    with np np_func_returns [OF True, of name] False show ?thesis by simp
  next
    case unreadable: False
    from np_func_raises [OF unreadable, of name] np False unreadable show ?thesis by auto
  qed
qed

lemma hstack_dispatch:
  "((\<exists>a. hstack w x y = Inr (Call Torch ''hstack'' a)) \<longleftrightarrow>
       is_tensor (objs w ! x) \<and> is_tensor (objs w ! y))
 \<and> ((\<exists>a. hstack w x y = Inr (Call Jnp ''hstack'' a)) \<longleftrightarrow>
       is_DeviceArray (objs w ! x) \<and> is_DeviceArray (objs w ! y))
 \<and> (if is_tensor (objs w ! x) \<and> is_tensor (objs w ! y) \<or>
        is_DeviceArray (objs w ! x) \<and> is_DeviceArray (objs w ! y) then True
     else if readable w x \<and> readable w y
     then hstack w x y = Inr (Call Np ''hstack'' [Ref x, Ref y])
     else hstack w x y = Inl NotOnHost \<or> hstack w x y = Inl RequiresGrad)"
proof -
  have r: "hstack w x y =
      (if is_tensor (objs w ! x) \<and> is_tensor (objs w ! y)
       then Inr (Call Torch ''hstack'' (map Ref [x, y]))
       else if is_DeviceArray (objs w ! x) \<and> is_DeviceArray (objs w ! y)
       then Inr (Call Jnp ''hstack'' (map Ref [x, y]))
       else np_func w ''hstack'' [x, y])"
    by (simp add: hstack_def)
  have excl: "\<not> ((is_tensor (objs w ! x) \<and> is_tensor (objs w ! y)) \<and>
                 (is_DeviceArray (objs w ! x) \<and> is_DeviceArray (objs w ! y)))"
    using tensor_is_no_DeviceArray [of "objs w ! x"] by blast
  from dual_dispatch [OF r excl] show ?thesis by simp
qed

lemma maximum_dispatch:
  "((\<exists>a. maximum w x y = Inr (Call Torch ''maximum'' a)) \<longleftrightarrow>
       is_tensor (objs w ! x) \<and> is_tensor (objs w ! y))
 \<and> ((\<exists>a. maximum w x y = Inr (Call Jnp ''maximum'' a)) \<longleftrightarrow>
       is_DeviceArray (objs w ! x) \<and> is_DeviceArray (objs w ! y))
 \<and> (if is_tensor (objs w ! x) \<and> is_tensor (objs w ! y) \<or>
        is_DeviceArray (objs w ! x) \<and> is_DeviceArray (objs w ! y) then True
     else if readable w x \<and> readable w y
     then maximum w x y = Inr (Call Np ''maximum'' [Ref x, Ref y])
     else maximum w x y = Inl NotOnHost \<or> maximum w x y = Inl RequiresGrad)"
proof -
  have r: "maximum w x y =
      (if is_tensor (objs w ! x) \<and> is_tensor (objs w ! y)
       then Inr (Call Torch ''maximum'' (map Ref [x, y]))
       else if is_DeviceArray (objs w ! x) \<and> is_DeviceArray (objs w ! y)
       then Inr (Call Jnp ''maximum'' (map Ref [x, y]))
       else np_func w ''maximum'' [x, y])"
    by (simp add: maximum_def)
  have excl: "\<not> ((is_tensor (objs w ! x) \<and> is_tensor (objs w ! y)) \<and>
                 (is_DeviceArray (objs w ! x) \<and> is_DeviceArray (objs w ! y)))"
    using tensor_is_no_DeviceArray [of "objs w ! x"] by blast
  from dual_dispatch [OF r excl] show ?thesis by simp
qed

lemma where_dispatch:
  "((\<exists>a. where_op w c x y = Inr (Call Torch ''where'' a)) \<longleftrightarrow>
       is_tensor (objs w ! x) \<and> is_tensor (objs w ! y))
 \<and> ((\<exists>a. where_op w c x y = Inr (Call Jnp ''where'' a)) \<longleftrightarrow>
       is_DeviceArray (objs w ! x) \<and> is_DeviceArray (objs w ! y))
 \<and> (if is_tensor (objs w ! x) \<and> is_tensor (objs w ! y) \<or>
        is_DeviceArray (objs w ! x) \<and> is_DeviceArray (objs w ! y) then True
     else if readable w c \<and> readable w x \<and> readable w y
     then where_op w c x y = Inr (Call Np ''where'' [Ref c, Ref x, Ref y])
     else where_op w c x y = Inl NotOnHost \<or> where_op w c x y = Inl RequiresGrad)"
proof -
  have r: "where_op w c x y =
      (if is_tensor (objs w ! x) \<and> is_tensor (objs w ! y)
       then Inr (Call Torch ''where'' (map Ref [c, x, y]))
       else if is_DeviceArray (objs w ! x) \<and> is_DeviceArray (objs w ! y)
       then Inr (Call Jnp ''where'' (map Ref [c, x, y]))
       else np_func w ''where'' [c, x, y])"
    by (simp add: where_op_def)
  have excl: "\<not> ((is_tensor (objs w ! x) \<and> is_tensor (objs w ! y)) \<and>
                 (is_DeviceArray (objs w ! x) \<and> is_DeviceArray (objs w ! y)))"
    using tensor_is_no_DeviceArray [of "objs w ! x"] by blast
  from dual_dispatch [OF r excl] show ?thesis by simp
qed

text \<open>
  Claim C2, as stated, fails for a tensor on a GPU paired with a host array: neither
  both are tensors nor both are DeviceArrays, so \<^verbatim>\<open>np.maximum\<close>, \<^verbatim>\<open>np.hstack\<close> and
  \<^verbatim>\<open>np.where\<close> are called, and they raise when they read the tensor.
\<close>

theorem mixed_operands_can_raise:
  "is_tensor
     (objs \<lparr>objs = [Tensor (Device ''cuda'' 0) False 0, NdArray 1], bufs = [[1, 5], [3, 2 :: int]],
            cuda_available = True\<rparr> ! 0)
   \<and> is_ndarray
       (objs \<lparr>objs = [Tensor (Device ''cuda'' 0) False 0, NdArray 1], bufs = [[1, 5], [3, 2 :: int]],
              cuda_available = True\<rparr> ! 1)
   \<and> maximum
       \<lparr>objs = [Tensor (Device ''cuda'' 0) False 0, NdArray 1], bufs = [[1, 5], [3, 2 :: int]],
        cuda_available = True\<rparr> 0 1 = Inl NotOnHost
   \<and> hstack
       \<lparr>objs = [Tensor (Device ''cuda'' 0) False 0, NdArray 1], bufs = [[1, 5], [3, 2 :: int]],
        cuda_available = True\<rparr> 0 1 = Inl NotOnHost
   \<and> where_op
       \<lparr>objs = [Tensor (Device ''cuda'' 0) False 0, NdArray 1], bufs = [[1, 5], [3, 2 :: int]],
        cuda_available = True\<rparr> 1 0 1 = Inl NotOnHost"
  by (simp add: maximum_def hstack_def where_op_def np_func_def and_then_def
      array_protocol_def is_tensor_def is_ndarray_def is_DeviceArray_def data_of_def)

text \<open>
  Claim C2, amended. \<^verbatim>\<open>hstack\<close>, \<^verbatim>\<open>maximum\<close> and \<^verbatim>\<open>where\<close> call the torch function if
  and only if both operands are torch tensors, and the jax function if and only if both
  are DeviceArrays. In every other combination they call the numpy function on the
  operands as they are (\<^verbatim>\<open>where\<close> with its condition), and numpy reads each operand as
  a host array: when every operand can be read (anything but a tensor that is on another
  device than the CPU or that tracks gradients), the host-array operation is applied to
  them; otherwise the call raises what torch raises when such a tensor is read, before
  anything is computed. The dispatch itself raises nothing.
\<close>

theorem dual_operand_dispatch:
  "(((\<exists>a. hstack w x y = Inr (Call Torch ''hstack'' a)) \<longleftrightarrow>
       is_tensor (objs w ! x) \<and> is_tensor (objs w ! y))
  \<and> ((\<exists>a. hstack w x y = Inr (Call Jnp ''hstack'' a)) \<longleftrightarrow>
       is_DeviceArray (objs w ! x) \<and> is_DeviceArray (objs w ! y))
  \<and> (if is_tensor (objs w ! x) \<and> is_tensor (objs w ! y) \<or>
         is_DeviceArray (objs w ! x) \<and> is_DeviceArray (objs w ! y) then True
      else if readable w x \<and> readable w y
      then hstack w x y = Inr (Call Np ''hstack'' [Ref x, Ref y])
      else hstack w x y = Inl NotOnHost \<or> hstack w x y = Inl RequiresGrad))
 \<and> (((\<exists>a. maximum w x y = Inr (Call Torch ''maximum'' a)) \<longleftrightarrow>
       is_tensor (objs w ! x) \<and> is_tensor (objs w ! y))
  \<and> ((\<exists>a. maximum w x y = Inr (Call Jnp ''maximum'' a)) \<longleftrightarrow>
       is_DeviceArray (objs w ! x) \<and> is_DeviceArray (objs w ! y))
  \<and> (if is_tensor (objs w ! x) \<and> is_tensor (objs w ! y) \<or>
         is_DeviceArray (objs w ! x) \<and> is_DeviceArray (objs w ! y) then True
      else if readable w x \<and> readable w y
      then maximum w x y = Inr (Call Np ''maximum'' [Ref x, Ref y])
      else maximum w x y = Inl NotOnHost \<or> maximum w x y = Inl RequiresGrad))
 \<and> (((\<exists>a. where_op w c x y = Inr (Call Torch ''where'' a)) \<longleftrightarrow>
       is_tensor (objs w ! x) \<and> is_tensor (objs w ! y))
  \<and> ((\<exists>a. where_op w c x y = Inr (Call Jnp ''where'' a)) \<longleftrightarrow>
       is_DeviceArray (objs w ! x) \<and> is_DeviceArray (objs w ! y))
  \<and> (if is_tensor (objs w ! x) \<and> is_tensor (objs w ! y) \<or>
         is_DeviceArray (objs w ! x) \<and> is_DeviceArray (objs w ! y) then True
      else if readable w c \<and> readable w x \<and> readable w y
      then where_op w c x y = Inr (Call Np ''where'' [Ref c, Ref x, Ref y])
      else where_op w c x y = Inl NotOnHost \<or> where_op w c x y = Inl RequiresGrad))
 \<and> (readable w x \<longleftrightarrow>
       (case objs w ! x of
          Tensor dev grad b \<Rightarrow> device_type dev = ''cpu'' \<and> \<not> grad
        | _ \<Rightarrow> True))"
  using hstack_dispatch [of w x y] maximum_dispatch [of w x y] where_dispatch [of w c x y]
    readable_iff [of w x]
  by blast

theorem dual_operand_dispatch_witness:
  "readable
     \<lparr>objs = [Tensor (Device ''cpu'' 0) False 0, NdArray 1], bufs = [[1, 5], [3, 2 :: int]],
      cuda_available = False\<rparr> 0
   \<and> readable
       \<lparr>objs = [Tensor (Device ''cpu'' 0) False 0, NdArray 1], bufs = [[1, 5], [3, 2 :: int]],
        cuda_available = False\<rparr> 1
   \<and> maximum
       \<lparr>objs = [Tensor (Device ''cpu'' 0) False 0, NdArray 1], bufs = [[1, 5], [3, 2 :: int]],
        cuda_available = False\<rparr> 0 1 = Inr (Call Np ''maximum'' [Ref 0, Ref 1])"
proof -
  let ?w = "\<lparr>objs = [Tensor (Device ''cpu'' 0) False 0, NdArray 1], bufs = [[1, 5], [3, 2 :: int]],
             cuda_available = False\<rparr>"
  have r0: "readable ?w 0"
    by (simp add: readable_def array_protocol_def)
  have r1: "readable ?w 1"
    by (simp add: readable_def array_protocol_def data_of_def)
  have mixed: "\<not> (is_tensor (objs ?w ! 0) \<and> is_tensor (objs ?w ! 1) \<or>
                  is_DeviceArray (objs ?w ! 0) \<and> is_DeviceArray (objs ?w ! 1))"
    by (simp add: is_tensor_def is_DeviceArray_def)
  from dual_operand_dispatch [of ?w 0 1 0] r0 r1 mixed show ?thesis
    by presburger
qed

section \<open>What the operations leave untouched\<close>























section \<open>Environment dimensions\<close>

lemma set_item_returns:
  "set_item key rhs info = (info1, Inr u) \<longleftrightarrow> (\<exists>v. rhs = Inr v \<and> info1 = info(key \<mapsto> v))"
  by (auto simp: set_item_def split: sum.splits)

lemma seq_returns:
  "seq s1 s2 info = (info2, Inr u) \<longleftrightarrow>
     (\<exists>info1 u1. s1 info = (info1, Inr u1) \<and> s2 info1 = (info2, Inr u))"
  by (auto simp: seq_def split: prod.splits sum.splits)

lemma four_assignments:
  assumes "seq (set_item k1 r1) (seq (set_item k2 r2) (seq (set_item k3 r3) (set_item k4 r4)))
             info = (info', Inr u)"
  shows "\<exists>v1 v2 v3 v4. r1 = Inr v1 \<and> r2 = Inr v2 \<and> r3 = Inr v3 \<and> r4 = Inr v4 \<and>
           info' = info(k1 \<mapsto> v1, k2 \<mapsto> v2, k3 \<mapsto> v3, k4 \<mapsto> v4)"
  using assms unfolding seq_returns set_item_returns by blast

text \<open>
  Claim C10. Whenever \<^verbatim>\<open>get_env_dimensions\<close> returns, it returns the empty dictionary:
  the local \<^verbatim>\<open>dims\<close> is never assigned to. The four entries \<^verbatim>\<open>action_dim\<close>,
  \<^verbatim>\<open>observation_dim\<close>, \<^verbatim>\<open>achieved_goal_dim\<close> and \<^verbatim>\<open>desired_goal_dim\<close> are written
  into the caller's \<^verbatim>\<open>info\<close> instead, which is otherwise left as it was; the two goal
  entries are \<^verbatim>\<open>None\<close> when the environment is not a goal environment.
\<close>

theorem get_env_dimensions_returns_empty:
  assumes "get_env_dimensions info is_goalenv env = (info', Inr dims)"
  shows "dims = Map.empty \<and>
         (\<exists>a ob ag dg.
            info' = info(''action_dim'' \<mapsto> a, ''observation_dim'' \<mapsto> ob,
                         ''achieved_goal_dim'' \<mapsto> ag, ''desired_goal_dim'' \<mapsto> dg) \<and>
            (if is_goalenv then True else ag = None \<and> dg = None))"
  using assms unfolding get_env_dimensions_def Let_def
  by (auto split: prod.splits sum.splits if_splits dest!: four_assignments)

theorem get_env_dimensions_returns_empty_witness:
  "get_env_dimensions [''seed'' \<mapsto> Some 7] False
     \<lparr>is_vector_env = None, single_action_space = None, single_observation_space = None,
      action_space = Some (Box [2]), observation_space = Some (Box [4, 17])\<rparr>
   = ([''seed'' \<mapsto> Some 7, ''action_dim'' \<mapsto> Some 2, ''observation_dim'' \<mapsto> Some 17,
       ''achieved_goal_dim'' \<mapsto> None, ''desired_goal_dim'' \<mapsto> None], Inr Map.empty)"
proof -
  have run: "get_env_dimensions [''seed'' \<mapsto> Some 7] False
     \<lparr>is_vector_env = None, single_action_space = None, single_observation_space = None,
      action_space = Some (Box [2]), observation_space = Some (Box [4, 17])\<rparr>
   = ([''seed'' \<mapsto> Some 7, ''action_dim'' \<mapsto> Some 2, ''observation_dim'' \<mapsto> Some 17,
       ''achieved_goal_dim'' \<mapsto> None, ''desired_goal_dim'' \<mapsto> None], Inr Map.empty)"
    by (simp add: get_env_dimensions_def seq_def set_item_def and_then_def get_attr_def
        shape_last_def)
  from get_env_dimensions_returns_empty [OF run] run show ?thesis
    by auto
qed

end
